theory Spec2Isabelle
  imports Complex_Main
begin

section \<open>ambiantgo: the SoundPlayer of \<^verbatim>\<open>ambiant.go\<close>\<close>

text \<open>
  The program is one Go file. A \<^verbatim>\<open>SoundPlayer\<close> struct is driven by a tray menu; it
  decodes an mp3 file into a streamer (package \<^verbatim>\<open>beep/mp3\<close>) and plays it, looped and
  attenuated, through the speaker (package \<^verbatim>\<open>beep/speaker\<close>).

  The four methods \<^verbatim>\<open>loadSound\<close>, \<^verbatim>\<open>play\<close>, \<^verbatim>\<open>pause\<close>, \<^verbatim>\<open>setVolume\<close> and the parts of
  \<^verbatim>\<open>main\<close> that call them are embedded as functions on an explicit state. The state holds
  the struct and, beside it, what the two libraries keep behind the program's back: the
  decoder objects the struct points to, the speaker's mixer, and the answers of the file
  system and of the audio device.
\<close>

subsection \<open>Data\<close>

text \<open>Go's \<^verbatim>\<open>error\<close> values the program can see, by where they come from.\<close>

datatype error =
    OpenError string      \<comment> \<open>\<^verbatim>\<open>os.Open\<close> failed on this path\<close>
  | DecodeError string    \<comment> \<open>\<^verbatim>\<open>mp3.Decode\<close> failed on this path\<close>
  | NoSoundLoaded         \<comment> \<open>\<^verbatim>\<open>fmt.Errorf("no sound loaded")\<close>\<close>
  | InitError             \<comment> \<open>\<^verbatim>\<open>speaker.Init\<close> failed\<close>
  | SeekError             \<comment> \<open>\<^verbatim>\<open>Seek\<close> on a streamer failed\<close>
  | StreamError           \<comment> \<open>a read error met while streaming, kept by the decoder\<close>

text \<open>\<^verbatim>\<open>beep.Format\<close>; its zero value is the struct's initial \<^verbatim>\<open>format\<close>.\<close>

record Format =
  SampleRate :: int
  NumChannels :: int
  Precision :: int

definition zero_Format :: Format where
  "zero_Format = \<lparr>SampleRate = 0, NumChannels = 0, Precision = 0\<rparr>"

text \<open>
  What the file system answers for a path: \<^verbatim>\<open>os.Open\<close> fails, or the file opens and
  \<^verbatim>\<open>mp3.Decode\<close> fails, or it decodes to a stream of a format and a length (in frames).
\<close>

datatype file_status = Missing | Undecodable | Decodable Format nat

text \<open>
  A decoder object, the \<^verbatim>\<open>beep.StreamSeekCloser\<close> that \<^verbatim>\<open>mp3.Decode\<close> returns. The struct
  and the streams given to the speaker refer to it by its address, here its index in the
  list of all decoders ever made. \<open>h_failed\<close> says that the decoder has met a read error
  while streaming and keeps it: its \<^verbatim>\<open>Err()\<close> is no longer \<^verbatim>\<open>nil\<close>.
\<close>

record handle =
  h_path :: string
  h_len :: nat
  h_pos :: int
  h_open :: bool
  h_failed :: bool

text \<open>
  Streamers as the program composes them: the decoder at an address, \<^verbatim>\<open>beep.Loop(count, s)\<close>,
  and \<^verbatim>\<open>effects.Volume{Streamer, Base, Volume, Silent}\<close>.
\<close>

datatype streamer =
    Decoder nat
  | Loop int streamer
  | Volume streamer real real bool

text \<open>
  The calls that reach package \<^verbatim>\<open>speaker\<close>, in order. \<^verbatim>\<open>speaker.Init\<close> is always called
  with the buffer size \<^verbatim>\<open>sampleRate.N(time.Second/10)\<close>, a function of its first argument,
  so the sample rate alone identifies the call.
\<close>

datatype speaker_call = SpeakerInit int | SpeakerPlay streamer | SpeakerClear

text \<open>
  The struct. \<^verbatim>\<open>currentStreamer\<close> is an interface value: \<open>None\<close> is \<^verbatim>\<open>nil\<close>, \<open>Some h\<close> the
  decoder at address \<open>h\<close>. \<^verbatim>\<open>volume\<close> is a \<^verbatim>\<open>float64\<close> that the program only stores and
  copies, never computes with; the levels it uses (-3, -2, -1, 0) are exact.
\<close>

record SoundPlayer =
  sounds :: "string list"
  currentSound :: string
  currentStreamer :: "nat option"
  format :: Format
  isPlaying :: bool
  volume :: real

text \<open>
  The whole state: the global \<^verbatim>\<open>soundPlayer\<close>, the decoders, the speaker's mixer (the
  streams it is playing), the trace of calls to the speaker, the lines written by
  \<^verbatim>\<open>log.Println\<close>, and the environment: what each path holds and for which sample rates the
  audio device can be opened.
\<close>

record world =
  sp :: SoundPlayer
  handles :: "handle list"
  mixer :: "streamer list"
  calls :: "speaker_call list"
  logged :: "error list"
  fs :: "string \<Rightarrow> file_status"
  device :: "int \<Rightarrow> bool"

subsection \<open>The libraries\<close>

text \<open>
  Modelled from the spec: the decoder's methods (package \<^verbatim>\<open>beep/mp3\<close>), which are outside
  the repository. The spec's glossary calls the handle "an open, seekable decoded-audio
  source positioned by sample frame", which \<^verbatim>\<open>load\<close> closes and \<^verbatim>\<open>play\<close> seeks to position
  zero. \<^verbatim>\<open>Close\<close> closes the file under the decoder. An address always designates a decoder
  (Go has no dangling reference), so the branch for an address out of range is never
  taken from a state the program reaches.
\<close>

definition streamer_Close :: "nat \<Rightarrow> world \<Rightarrow> world" where
  "streamer_Close h w =
     (if h < length (handles w)
      then w\<lparr>handles := (handles w)[h := (handles w ! h)\<lparr>h_open := False\<rparr>]\<rparr>
      else w)"

text \<open>
  Modelled from the spec: \<^verbatim>\<open>Seek(p)\<close> puts an open decoder at frame \<open>p\<close> of its stream.
  Where the spec is silent the library decides: on a closed file and on a position
  outside the stream \<^verbatim>\<open>Seek\<close> returns an error and leaves the position as it was.
\<close>

definition streamer_Seek :: "nat \<Rightarrow> int \<Rightarrow> world \<Rightarrow> error option \<times> world" where
  "streamer_Seek h p w =
     (if h < length (handles w) \<and> h_open (handles w ! h) \<and> 0 \<le> p \<and> p \<le> int (h_len (handles w ! h))
      then (None, w\<lparr>handles := (handles w)[h := (handles w ! h)\<lparr>h_pos := p\<rparr>]\<rparr>)
      else (Some SeekError, w))"

text \<open>
  Modelled from the spec: \<^verbatim>\<open>Err()\<close> of a streamer, of which the spec only says that \<^verbatim>\<open>play\<close>
  can report an error. In the library a decoder returns the read error it has kept, if
  any; \<^verbatim>\<open>Loop\<close> and \<^verbatim>\<open>Volume\<close> return the error of the streamer they wrap.
\<close>

fun streamer_Err :: "streamer \<Rightarrow> world \<Rightarrow> error option" where
  "streamer_Err (Decoder h) w =
     (if h < length (handles w) \<and> h_failed (handles w ! h) then Some StreamError else None)"
| "streamer_Err (Loop n s) w = streamer_Err s w"
| "streamer_Err (Volume s b v m) w = streamer_Err s w"

text \<open>The decoder a composed streamer reads from.\<close>

fun decoder_of :: "streamer \<Rightarrow> nat" where
  "decoder_of (Decoder h) = h"
| "decoder_of (Loop n s) = decoder_of s"
| "decoder_of (Volume s b v m) = decoder_of s"

text \<open>
  Modelled from the spec: package \<^verbatim>\<open>beep/speaker\<close>, which is outside the repository. The
  spec treats it as a black box: \<^verbatim>\<open>play\<close> "(re)initializes the audio-output device" and
  "submits the composed stream to the output device, replacing any stream already
  playing"; \<^verbatim>\<open>pause\<close> "clears/stops the output device's active stream"; the device can be
  unavailable. So \<^verbatim>\<open>Init\<close> initialises the speaker again: it closes the device if it is
  open, starts from an empty mixer and opens the device for the sample rate, which can
  fail. \<^verbatim>\<open>Play\<close> adds a streamer to the mixer. \<^verbatim>\<open>Clear\<close> empties the mixer. The source calls
  \<^verbatim>\<open>Init\<close> before every \<^verbatim>\<open>Play\<close> and tests its error every time, so the stream that \<^verbatim>\<open>play\<close>
  submits replaces the one that was playing.
\<close>

definition speaker_Init :: "int \<Rightarrow> world \<Rightarrow> error option \<times> world" where
  "speaker_Init sampleRate w =
     (let w1 = w\<lparr>mixer := [], calls := calls w @ [SpeakerInit sampleRate]\<rparr>
      in if device w sampleRate then (None, w1) else (Some InitError, w1))"

definition speaker_Play :: "streamer \<Rightarrow> world \<Rightarrow> world" where
  "speaker_Play s w = w\<lparr>mixer := mixer w @ [s], calls := calls w @ [SpeakerPlay s]\<rparr>"

definition speaker_Clear :: "world \<Rightarrow> world" where
  "speaker_Clear w = w\<lparr>mixer := [], calls := calls w @ [SpeakerClear]\<rparr>"

subsection \<open>The methods of SoundPlayer\<close>

text \<open>Lines 27 to 30 of \<^verbatim>\<open>loadSound\<close>: close the existing streamer if there is one.\<close>

definition close_existing :: "world \<Rightarrow> world" where
  "close_existing w =
     (case currentStreamer (sp w) of
        None \<Rightarrow> w
      | Some h \<Rightarrow> streamer_Close h w)"

text \<open>
  Lines 32 to 47 of \<^verbatim>\<open>loadSound\<close>: open and decode the file; on success the new decoder
  (at a new address, at position 0, with no error kept) becomes \<^verbatim>\<open>currentStreamer\<close>, and
  \<^verbatim>\<open>format\<close> and \<^verbatim>\<open>currentSound\<close> are set. On either error the function returns before it
  has assigned anything. (When \<^verbatim>\<open>mp3.Decode\<close> fails the source does not close the file it
  has opened; that file is not a decoder and is not kept in the state.)
\<close>

definition open_sound :: "string \<Rightarrow> world \<Rightarrow> error option \<times> world" where
  "open_sound filename w =
     (case fs w filename of
        Missing \<Rightarrow> (Some (OpenError filename), w)
      | Undecodable \<Rightarrow> (Some (DecodeError filename), w)
      | Decodable fmt len \<Rightarrow>
          (None,
           w\<lparr>handles := handles w @
                [\<lparr>h_path = filename, h_len = len, h_pos = 0, h_open = True, h_failed = False\<rparr>],
             sp := (sp w)\<lparr>currentStreamer := Some (length (handles w)),
                          format := fmt,
                          currentSound := filename\<rparr>\<rparr>))"

definition loadSound :: "string \<Rightarrow> world \<Rightarrow> error option \<times> world" where
  "loadSound filename w = open_sound filename (close_existing w)"

text \<open>
  \<^verbatim>\<open>play\<close>. The result of \<^verbatim>\<open>Seek(0)\<close> is dropped, as in the source. The value returned
  at the end is \<^verbatim>\<open>volumeCtrl.Streamer.Err()\<close>, where \<^verbatim>\<open>volumeCtrl.Streamer\<close> is the looping
  streamer; \<^verbatim>\<open>volumeCtrl\<close> has no other use.
\<close>

definition play :: "world \<Rightarrow> error option \<times> world" where
  "play w =
     (case currentStreamer (sp w) of
        None \<Rightarrow> (Some NoSoundLoaded, w)
      | Some h \<Rightarrow>
          (case speaker_Init (SampleRate (format (sp w))) w of
             (Some err, w1) \<Rightarrow> (Some err, w1)
           | (None, w1) \<Rightarrow>
               (let w2 = snd (streamer_Seek h 0 w1);
                    loopStreamer = Loop (- 1) (Decoder h);
                    vol = Volume loopStreamer 2 (volume (sp w2)) False;
                    w3 = speaker_Play vol w2;
                    w4 = w3\<lparr>sp := (sp w3)\<lparr>isPlaying := True\<rparr>\<rparr>
                in (streamer_Err loopStreamer w4, w4))))"

definition pause :: "world \<Rightarrow> world" where
  "pause w = (let w1 = speaker_Clear w in w1\<lparr>sp := (sp w1)\<lparr>isPlaying := False\<rparr>\<rparr>)"

definition setVolume :: "real \<Rightarrow> world \<Rightarrow> world" where
  "setVolume vol w =
     (let w1 = w\<lparr>sp := (sp w)\<lparr>volume := vol\<rparr>\<rparr>
      in if isPlaying (sp w1) then snd (play (pause w1)) else w1)"

subsection \<open>The main function\<close>

text \<open>
  The state at the start of \<^verbatim>\<open>main\<close>, for a list of sounds and an environment. The
  program's own list is \<open>main_sounds\<close>.
\<close>

definition initial :: "string list \<Rightarrow> (string \<Rightarrow> file_status) \<Rightarrow> (int \<Rightarrow> bool) \<Rightarrow> world" where
  "initial snds f d =
     \<lparr>sp = \<lparr>sounds = snds, currentSound = [], currentStreamer = None,
            format = zero_Format, isPlaying = False, volume = 0\<rparr>,
      handles = [], mixer = [], calls = [], logged = [], fs = f, device = d\<rparr>"

definition main_sounds :: "string list" where
  "main_sounds = [''./sounds/Mountain Stream.mp3'']"

text \<open>Lines 106 to 111: the three calls made before the tray starts; their errors are dropped.\<close>

definition startup :: "world \<Rightarrow> world" where
  "startup w =
     (if length (sounds (sp w)) > 0
      then (let w1 = snd (loadSound (sounds (sp w) ! 0) w);
                w2 = setVolume (- 2) w1
            in snd (play w2))
      else w)"

text \<open>The six channels of the first \<^verbatim>\<open>select\<close> of the loop, and what each case does.\<close>

datatype click = ClickPlay | ClickPause | ClickVolumeLow | ClickVolumeMedium
  | ClickVolumeHigh | ClickQuit

fun on_click :: "click \<Rightarrow> world \<Rightarrow> world" where
  "on_click ClickPlay w = snd (play w)"
| "on_click ClickPause w = pause w"
| "on_click ClickVolumeLow w = setVolume (- 3) w"
| "on_click ClickVolumeMedium w = setVolume (- 1) w"
| "on_click ClickVolumeHigh w = setVolume 0 w"
| "on_click ClickQuit w = w"

text \<open>
  Lines 157 to 165: the case of the inner \<^verbatim>\<open>select\<close> taken when the item of sound \<open>i\<close> has
  been clicked. The loop runs over the items, one per sound, so \<open>i\<close> is below the length
  of \<^verbatim>\<open>sounds\<close>.
\<close>

definition sound_clicked :: "nat \<Rightarrow> world \<Rightarrow> world" where
  "sound_clicked i w =
     (let (err, w1) = loadSound (sounds (sp w) ! i) w;
          w2 = (case err of None \<Rightarrow> w1 | Some e \<Rightarrow> w1\<lparr>logged := logged w1 @ [e]\<rparr>)
      in if isPlaying (sp w2) then snd (play w2) else w2)"

text \<open>
  Lines 155 to 168: the items are polled in order; \<open>pending\<close> says, item by item, whether
  a click is waiting when the item is polled.
\<close>

fun poll_sounds :: "nat \<Rightarrow> bool list \<Rightarrow> world \<Rightarrow> world" where
  "poll_sounds i [] w = w"
| "poll_sounds i (c # cs) w = poll_sounds (Suc i) cs (if c then sound_clicked i w else w)"

text \<open>
  One turn of the loop: a click of the first \<^verbatim>\<open>select\<close>, then the poll. On quit the
  goroutine returns at once; the result says whether the loop goes on. The exit function
  that the tray then calls (it closes the decoder and the speaker) is not embedded.
\<close>

definition turn :: "click \<Rightarrow> bool list \<Rightarrow> world \<Rightarrow> bool \<times> world" where
  "turn c pending w =
     (if c = ClickQuit then (False, w)
      else (True, poll_sounds 0 (take (length (sounds (sp w))) pending) (on_click c w)))"

text \<open>
  The loop, for the clicks of each turn in order; it ends with the quit click. The state
  of the program after the startup sequence and these turns is \<open>main_state\<close>.
\<close>

fun loop :: "(click \<times> bool list) list \<Rightarrow> world \<Rightarrow> world" where
  "loop [] w = w"
| "loop ((c, pending) # es) w =
     (case turn c pending w of
        (False, w') \<Rightarrow> w'
      | (True, w') \<Rightarrow> loop es w')"

definition main_state :: "(click \<times> bool list) list \<Rightarrow> (string \<Rightarrow> file_status) \<Rightarrow> (int \<Rightarrow> bool) \<Rightarrow> world" where
  "main_state es f d = loop es (startup (initial main_sounds f d))"

subsection \<open>Runs\<close>

text \<open>
  What can happen to the state, one step at a time: a call of one of the four methods,
  a click on a sound, or a move of the environment. The speaker's own thread reads from
  the streams in the mixer, which advances a decoder or leaves a read error in it; files
  and the device can change between calls.
\<close>

datatype action =
    Load string
  | Play
  | Pause
  | SetVolume real
  | SoundClicked nat
  | StreamAdvance nat nat
  | StreamFault nat
  | FsChange "string \<Rightarrow> file_status"
  | DeviceChange "int \<Rightarrow> bool"

definition streaming :: "nat \<Rightarrow> world \<Rightarrow> bool" where
  "streaming h w = (h < length (handles w) \<and> h \<in> decoder_of ` set (mixer w))"

fun step :: "action \<Rightarrow> world \<Rightarrow> world" where
  "step (Load p) w = snd (loadSound p w)"
| "step Play w = snd (play w)"
| "step Pause w = pause w"
| "step (SetVolume v) w = setVolume v w"
| "step (SoundClicked i) w = (if i < length (sounds (sp w)) then sound_clicked i w else w)"
| "step (StreamAdvance h p) w =
     (if streaming h w \<and> h_open (handles w ! h) \<and> p \<le> h_len (handles w ! h)
      then w\<lparr>handles := (handles w)[h := (handles w ! h)\<lparr>h_pos := int p\<rparr>]\<rparr> else w)"
| "step (StreamFault h) w =
     (if streaming h w
      then w\<lparr>handles := (handles w)[h := (handles w ! h)\<lparr>h_failed := True\<rparr>]\<rparr> else w)"
| "step (FsChange f) w = w\<lparr>fs := f\<rparr>"
| "step (DeviceChange d) w = w\<lparr>device := d\<rparr>"

fun run :: "action list \<Rightarrow> world \<Rightarrow> world" where
  "run [] w = w"
| "run (a # as) w = run as (step a w)"

text \<open>The decoders that are open.\<close>

definition open_handles :: "world \<Rightarrow> handle list" where
  "open_handles w = filter h_open (handles w)"

text \<open>A small environment for examples: two files that decode, one that does not, a device that opens.\<close>

definition cd_format :: Format where
  "cd_format = \<lparr>SampleRate = 44100, NumChannels = 2, Precision = 2\<rparr>"

definition demo_fs :: "string \<Rightarrow> file_status" where
  "demo_fs p =
     (if p = ''a.mp3'' then Decodable cd_format 1000
      else if p = ''b.mp3'' then Decodable cd_format 500
      else if p = ''bad.mp3'' then Undecodable
      else Missing)"

definition demo_device :: "int \<Rightarrow> bool" where
  "demo_device r = True"

definition no_device :: "int \<Rightarrow> bool" where
  "no_device r = False"

definition demo_sounds :: "string list" where
  "demo_sounds = [''a.mp3'', ''b.mp3'', ''bad.mp3'']"

definition fresh :: world where
  "fresh = initial demo_sounds demo_fs demo_device"

definition loaded_a :: world where
  "loaded_a = run [Load ''a.mp3''] fresh"

definition playing_a :: world where
  "playing_a = run [Load ''a.mp3'', Play] fresh"

definition advanced_a :: world where
  "advanced_a = step (StreamAdvance 0 7) playing_a"

text \<open>The state without the trace of calls: what the program and the libraries hold.\<close>

definition forget_calls :: "world \<Rightarrow> world" where
  "forget_calls w = w\<lparr>calls := []\<rparr>"

text \<open>
  The shape of the decoders in every run: only the last decoder made can be open, and
  \<^verbatim>\<open>currentStreamer\<close> is that last decoder, or \<^verbatim>\<open>nil\<close> while none has been made (and then
  nothing is playing).
\<close>

definition tidy :: "world \<Rightarrow> bool" where
  "tidy w =
     ((\<forall>i. Suc i < length (handles w) \<longrightarrow> \<not> h_open (handles w ! i)) \<and>
      (case currentStreamer (sp w) of
         None \<Rightarrow> handles w = [] \<and> \<not> isPlaying (sp w)
       | Some h \<Rightarrow> Suc h = length (handles w)))"

definition playing_b :: world where
  "playing_b = step (SoundClicked 1) playing_a"

definition failed_load_a :: world where
  "failed_load_a = step (Load ''missing.mp3'') loaded_a"

definition idle :: world where
  "idle = run [Load ''missing.mp3'', Pause, SetVolume (- 1)] fresh"

definition unplugged_a :: world where
  "unplugged_a = step (DeviceChange no_device) playing_a"

definition faulted_a :: world where
  "faulted_a = run [StreamFault 0, Pause] playing_a"

text \<open>
  A trace of calls read from left to right: is a stream submitted after the last
  \<^verbatim>\<open>speaker.Clear\<close>? The flag is the answer for the calls read so far.
\<close>

fun trace_playing :: "bool \<Rightarrow> speaker_call list \<Rightarrow> bool" where
  "trace_playing b [] = b"
| "trace_playing b (SpeakerInit r # cs) = trace_playing b cs"
| "trace_playing b (SpeakerPlay s # cs) = trace_playing True cs"
| "trace_playing b (SpeakerClear # cs) = trace_playing False cs"

text \<open>
  \<^verbatim>\<open>play\<close> reaches \<^verbatim>\<open>speaker.Play\<close> from this state: it passes the test for \<^verbatim>\<open>nil\<close> and
  \<^verbatim>\<open>speaker.Init\<close> succeeds.
\<close>

definition submits :: "world \<Rightarrow> bool" where
  "submits w = (currentStreamer (sp w) \<noteq> None \<and> device w (SampleRate (format (sp w))))"

text \<open>In a run, \<^verbatim>\<open>isPlaying\<close> is true only when the trace says that a stream was submitted last.\<close>

definition sound_trace :: "world \<Rightarrow> bool" where
  "sound_trace w = (\<not> isPlaying (sp w) \<or> trace_playing False (calls w))"

definition stale_a :: world where
  "stale_a = run [Pause, Load ''missing.mp3''] advanced_a"

section \<open>Facts about the methods\<close>

lemma close_existing_fields:
  "sp (close_existing w) = sp w"
  "mixer (close_existing w) = mixer w"
  "calls (close_existing w) = calls w"
  "logged (close_existing w) = logged w"
  "fs (close_existing w) = fs w"
  "device (close_existing w) = device w"
  "length (handles (close_existing w)) = length (handles w)"
  by (simp_all add: close_existing_def streamer_Close_def split: option.splits)

lemma close_existing_nth:
  "i < length (handles w) \<Longrightarrow>
   handles (close_existing w) ! i =
     (if currentStreamer (sp w) = Some i then (handles w ! i)\<lparr>h_open := False\<rparr> else handles w ! i)"
  by (auto simp: close_existing_def streamer_Close_def nth_list_update split: option.splits)

lemma close_existing_nil: "currentStreamer (sp w) = None \<Longrightarrow> close_existing w = w"
  by (simp add: close_existing_def)

lemma open_sound_error:
  "fst (open_sound p w) \<noteq> None \<Longrightarrow> snd (open_sound p w) = w"
  by (simp add: open_sound_def split: file_status.splits)

lemma open_sound_ok:
  "fs w p = Decodable fmt len \<Longrightarrow>
   open_sound p w =
     (None, w\<lparr>handles := handles w @
                [\<lparr>h_path = p, h_len = len, h_pos = 0, h_open = True, h_failed = False\<rparr>],
              sp := (sp w)\<lparr>currentStreamer := Some (length (handles w)),
                           format := fmt, currentSound := p\<rparr>\<rparr>)"
  by (simp add: open_sound_def)

lemma open_sound_result:
  "fst (open_sound p w) = None \<longleftrightarrow> (\<exists>fmt len. fs w p = Decodable fmt len)"
  by (simp add: open_sound_def split: file_status.splits)

lemma play_nil:
  "currentStreamer (sp w) = None \<Longrightarrow> play w = (Some NoSoundLoaded, w)"
  by (simp add: play_def)

lemma play_no_device:
  "currentStreamer (sp w) = Some h \<Longrightarrow> \<not> device w (SampleRate (format (sp w))) \<Longrightarrow>
   play w = (Some InitError,
             w\<lparr>mixer := [], calls := calls w @ [SpeakerInit (SampleRate (format (sp w)))]\<rparr>)"
  by (simp add: play_def speaker_Init_def)

lemma play_submit:
  assumes "currentStreamer (sp w) = Some h" and "device w (SampleRate (format (sp w)))"
  shows "sp (snd (play w)) = (sp w)\<lparr>isPlaying := True\<rparr>"
    and "mixer (snd (play w)) = [Volume (Loop (- 1) (Decoder h)) 2 (volume (sp w)) False]"
    and "calls (snd (play w)) = calls w @
           [SpeakerInit (SampleRate (format (sp w))),
            SpeakerPlay (Volume (Loop (- 1) (Decoder h)) 2 (volume (sp w)) False)]"
    and "logged (snd (play w)) = logged w"
    and "fs (snd (play w)) = fs w"
    and "device (snd (play w)) = device w"
    and "handles (snd (play w)) =
           (if h < length (handles w) \<and> h_open (handles w ! h)
            then (handles w)[h := (handles w ! h)\<lparr>h_pos := 0\<rparr>] else handles w)"
    and "fst (play w) =
           (if h < length (handles w) \<and> h_failed (handles w ! h) then Some StreamError else None)"
  using assms
  by (simp_all add: play_def speaker_Init_def streamer_Seek_def speaker_Play_def Let_def)

lemma pause_fields:
  "sp (pause w) = (sp w)\<lparr>isPlaying := False\<rparr>"
  "mixer (pause w) = []"
  "calls (pause w) = calls w @ [SpeakerClear]"
  "handles (pause w) = handles w"
  "logged (pause w) = logged w"
  "fs (pause w) = fs w"
  "device (pause w) = device w"
  by (simp_all add: pause_def speaker_Clear_def)

text \<open>
  What \<^verbatim>\<open>play\<close> has done when it returns no error: the decoder is at position 0 if it is
  open and where it was if it is closed; the rest does not depend on the decoder.
\<close>

lemma play_returns_nil:
  assumes "currentStreamer (sp w) = Some h"
    and "h < length (handles w)"
    and "play w = (None, w')"
  shows "handles w' =
           (if h_open (handles w ! h) then (handles w)[h := (handles w ! h)\<lparr>h_pos := 0\<rparr>]
            else handles w) \<and>
         mixer w' = [Volume (Loop (- 1) (Decoder h)) 2 (volume (sp w)) False] \<and>
         calls w' = calls w @
           [SpeakerInit (SampleRate (format (sp w))),
            SpeakerPlay (Volume (Loop (- 1) (Decoder h)) 2 (volume (sp w)) False)] \<and>
         sp w' = (sp w)\<lparr>isPlaying := True\<rparr>"
proof -
  have dev: "device w (SampleRate (format (sp w)))"
  proof (rule ccontr)
    assume "\<not> device w (SampleRate (format (sp w)))"
    from play_no_device [OF assms(1) this] assms(3) show False by simp
  qed
  have w': "w' = snd (play w)" using assms(3) by simp
  show ?thesis
    using assms(2) by (simp add: w' play_submit [OF assms(1) dev])
qed

section \<open>The struct after each method\<close>

lemma sp_loadSound:
  "sp (snd (loadSound p w)) =
     (case fs w p of
        Decodable fmt len \<Rightarrow>
          (sp w)\<lparr>currentStreamer := Some (length (handles w)), format := fmt, currentSound := p\<rparr>
      | _ \<Rightarrow> sp w)"
  by (simp add: loadSound_def open_sound_def close_existing_fields split: file_status.splits)

lemma fst_loadSound:
  "fst (loadSound p w) =
     (case fs w p of Missing \<Rightarrow> Some (OpenError p) | Undecodable \<Rightarrow> Some (DecodeError p)
      | Decodable fmt len \<Rightarrow> None)"
  by (simp add: loadSound_def open_sound_def close_existing_fields split: file_status.splits)

lemma loadSound_error:
  "fst (loadSound p w) \<noteq> None \<Longrightarrow> snd (loadSound p w) = close_existing w"
  by (simp add: loadSound_def open_sound_error)

lemma loadSound_keeps:
  "mixer (snd (loadSound p w)) = mixer w"
  "calls (snd (loadSound p w)) = calls w"
  "logged (snd (loadSound p w)) = logged w"
  "fs (snd (loadSound p w)) = fs w"
  "device (snd (loadSound p w)) = device w"
  by (simp_all add: loadSound_def open_sound_def close_existing_fields split: file_status.splits)

lemma loadSound_old_handles:
  "i < length (handles w) \<Longrightarrow>
   handles (snd (loadSound p w)) ! i = handles (close_existing w) ! i"
  by (simp add: loadSound_def open_sound_def close_existing_fields nth_append
      split: file_status.splits)

lemma sp_play:
  "sp (snd (play w)) =
     (if currentStreamer (sp w) \<noteq> None \<and> device w (SampleRate (format (sp w)))
      then (sp w)\<lparr>isPlaying := True\<rparr> else sp w)"
  by (auto simp: play_def speaker_Init_def streamer_Seek_def speaker_Play_def Let_def
      split: option.splits)

lemma fst_play_nil:
  "fst (play w) = Some NoSoundLoaded \<longleftrightarrow> currentStreamer (sp w) = None"
  by (auto simp: play_def speaker_Init_def streamer_Seek_def speaker_Play_def Let_def
      split: option.splits)

lemma sp_setVolume:
  "sp (setVolume v w) =
     (if isPlaying (sp w)
      then (sp w)\<lparr>volume := v,
                  isPlaying := currentStreamer (sp w) \<noteq> None \<and> device w (SampleRate (format (sp w)))\<rparr>
      else (sp w)\<lparr>volume := v\<rparr>)"
  by (simp add: setVolume_def Let_def sp_play pause_fields)

lemma sound_clicked_eq:
  "sound_clicked i w =
     (let r = loadSound (sounds (sp w) ! i) w;
          w2 = (case fst r of None \<Rightarrow> snd r | Some e \<Rightarrow> (snd r)\<lparr>logged := logged (snd r) @ [e]\<rparr>)
      in if isPlaying (sp w2) then snd (play w2) else w2)"
proof (cases "loadSound (sounds (sp w) ! i) w")
  case (Pair e w1)
  show ?thesis by (cases e) (simp_all add: sound_clicked_def Pair Let_def)
qed

lemma sp_sound_clicked:
  "sp (sound_clicked i w) =
     (let s1 = sp (snd (loadSound (sounds (sp w) ! i) w))
      in if isPlaying (sp w) \<and> device w (SampleRate (format s1)) \<and> currentStreamer s1 \<noteq> None
         then s1\<lparr>isPlaying := True\<rparr> else s1)"
  by (auto simp: sound_clicked_eq Let_def sp_play sp_loadSound loadSound_keeps
      split: option.splits file_status.splits)

section \<open>Invariants of runs\<close>

lemma tidy_initial: "tidy (initial snds f d)"
  by (simp add: tidy_def initial_def)

lemma close_existing_all_closed:
  "tidy w \<Longrightarrow> i < length (handles w) \<Longrightarrow> \<not> h_open (handles (close_existing w) ! i)"
  by (cases "Suc i < length (handles w)")
     (auto simp: tidy_def close_existing_nth split: option.splits)

lemma tidy_close_existing: "tidy w \<Longrightarrow> tidy (close_existing w)"
  by (auto simp: tidy_def close_existing_fields close_existing_nth close_existing_nil
      split: option.splits)

lemma tidy_open_sound:
  assumes "tidy w" and "\<forall>i < length (handles w). \<not> h_open (handles w ! i)"
  shows "tidy (snd (open_sound p w))"
  using assms
  by (auto simp: tidy_def open_sound_def nth_append split: file_status.splits option.splits)

lemma tidy_loadSound: "tidy w \<Longrightarrow> tidy (snd (loadSound p w))"
  unfolding loadSound_def
  by (rule tidy_open_sound)
     (simp_all add: tidy_close_existing close_existing_all_closed close_existing_fields)

lemma tidy_play: "tidy w \<Longrightarrow> tidy (snd (play w))"
  by (auto simp: tidy_def play_def speaker_Init_def streamer_Seek_def speaker_Play_def
      Let_def nth_list_update split: option.splits)

lemma tidy_pause: "tidy w \<Longrightarrow> tidy (pause w)"
  by (auto simp: tidy_def pause_fields split: option.splits)

lemma tidy_store_volume: "tidy w \<Longrightarrow> tidy (w\<lparr>sp := (sp w)\<lparr>volume := v\<rparr>\<rparr>)"
  by (simp add: tidy_def split: option.splits)

lemma tidy_setVolume: "tidy w \<Longrightarrow> tidy (setVolume v w)"
  by (simp add: setVolume_def Let_def tidy_play tidy_pause tidy_store_volume)

lemma tidy_log: "tidy w \<Longrightarrow> tidy (w\<lparr>logged := l\<rparr>)"
  by (simp add: tidy_def split: option.splits)

lemma tidy_sound_clicked: "tidy w \<Longrightarrow> tidy (sound_clicked i w)"
proof -
  assume t: "tidy w"
  obtain e w1 where l: "loadSound (sounds (sp w) ! i) w = (e, w1)"
    by (cases "loadSound (sounds (sp w) ! i) w")
  with tidy_loadSound [OF t, of "sounds (sp w) ! i"] have "tidy w1" by simp
  then show ?thesis
    by (simp add: sound_clicked_def l Let_def tidy_play tidy_log split: option.splits)
qed

lemma tidy_step: "tidy w \<Longrightarrow> tidy (step a w)"
proof (cases a)
  case (StreamAdvance h p)
  assume "tidy w"
  then show ?thesis
    by (auto simp: StreamAdvance tidy_def streaming_def nth_list_update split: option.splits)
next
  case (StreamFault h)
  assume "tidy w"
  then show ?thesis
    by (auto simp: StreamFault tidy_def streaming_def nth_list_update split: option.splits)
next
  case (FsChange f)
  assume "tidy w"
  then show ?thesis by (simp add: FsChange tidy_def split: option.splits)
next
  case (DeviceChange d)
  assume "tidy w"
  then show ?thesis by (simp add: DeviceChange tidy_def split: option.splits)
qed (simp_all add: tidy_loadSound tidy_play tidy_pause tidy_setVolume tidy_sound_clicked)

lemma tidy_run: "tidy w \<Longrightarrow> tidy (run as w)"
  by (induction as arbitrary: w) (simp_all add: tidy_step)

lemma tidy_reachable: "tidy (run as (initial snds f d))"
  by (rule tidy_run [OF tidy_initial])

lemma filter_last_only:
  assumes "\<forall>i. Suc i < length xs \<longrightarrow> \<not> P (xs ! i)"
  shows "length (filter P xs) \<le> 1"
proof (cases xs rule: rev_cases)
  case Nil
  then show ?thesis by simp
next
  case (snoc ys y)
  have "\<not> P x" if "x \<in> set ys" for x
  proof -
    from that obtain i where i: "i < length ys" "ys ! i = x"
      by (auto simp: in_set_conv_nth)
    with assms snoc show ?thesis by (auto simp: nth_append)
  qed
  then have "filter P ys = []" by (simp add: filter_empty_conv)
  with snoc show ?thesis by simp
qed

lemma tidy_one_open: "tidy w \<Longrightarrow> length (open_handles w) \<le> 1"
  unfolding open_handles_def by (rule filter_last_only) (simp add: tidy_def)

lemma all_closed_none_open:
  "\<forall>i < length (handles w). \<not> h_open (handles w ! i) \<Longrightarrow> open_handles w = []"
  by (auto simp: open_handles_def filter_empty_conv in_set_conv_nth)

lemma streamer_kept_step:
  "currentStreamer (sp w) \<noteq> None \<Longrightarrow> currentStreamer (sp (step a w)) \<noteq> None"
  by (cases a)
     (auto simp: sp_loadSound sp_play sp_setVolume sp_sound_clicked pause_fields Let_def
      split: file_status.splits)

lemma streamer_kept_run:
  "currentStreamer (sp w) \<noteq> None \<Longrightarrow> currentStreamer (sp (run as w)) \<noteq> None"
proof (induction as arbitrary: w)
  case Nil
  then show ?case by simp
next
  case (Cons a as)
  from Cons.IH [OF streamer_kept_step [OF Cons.prems]] show ?case by simp
qed

lemma loadSound_sets_streamer:
  "fst (loadSound p w) = None \<Longrightarrow> currentStreamer (sp (snd (loadSound p w))) = Some (length (handles w))"
  by (auto simp: fst_loadSound sp_loadSound split: file_status.splits)

lemma loadSound_failed_streamer:
  "fst (loadSound p w) \<noteq> None \<Longrightarrow> sp (snd (loadSound p w)) = sp w"
  by (auto simp: fst_loadSound sp_loadSound split: file_status.splits)

lemma tidy_current:
  "tidy w \<Longrightarrow> currentStreamer (sp w) = Some h \<Longrightarrow> Suc h = length (handles w)"
  by (simp add: tidy_def)

lemma play_keeps:
  "logged (snd (play w)) = logged w"
  "fs (snd (play w)) = fs w"
  "device (snd (play w)) = device w"
  "length (handles (snd (play w))) = length (handles w)"
  by (auto simp: play_def speaker_Init_def streamer_Seek_def speaker_Play_def Let_def
      split: option.splits)

lemma logged_sound_clicked:
  "logged (sound_clicked i w) =
     (case fst (loadSound (sounds (sp w) ! i) w) of None \<Rightarrow> logged w | Some e \<Rightarrow> logged w @ [e])"
  by (simp add: sound_clicked_eq Let_def play_keeps loadSound_keeps split: option.splits)

lemma tidy_playing:
  "tidy w \<Longrightarrow> isPlaying (sp w) \<Longrightarrow> \<exists>h. currentStreamer (sp w) = Some h"
  by (cases "currentStreamer (sp w)") (simp_all add: tidy_def)

lemma setVolume_stopped:
  "\<not> isPlaying (sp w) \<Longrightarrow> setVolume v w = w\<lparr>sp := (sp w)\<lparr>volume := v\<rparr>\<rparr>"
  by (simp add: setVolume_def)

lemma setVolume_playing:
  assumes "isPlaying (sp w)" and "currentStreamer (sp w) = Some h"
  shows "calls (setVolume v w) =
           calls w @ [SpeakerClear, SpeakerInit (SampleRate (format (sp w)))] @
             (if device w (SampleRate (format (sp w)))
              then [SpeakerPlay (Volume (Loop (- 1) (Decoder h)) 2 v False)] else [])"
    and "mixer (setVolume v w) =
           (if device w (SampleRate (format (sp w)))
            then [Volume (Loop (- 1) (Decoder h)) 2 v False] else [])"
  using assms
  by (simp_all add: setVolume_def pause_def speaker_Clear_def play_def speaker_Init_def
      streamer_Seek_def speaker_Play_def Let_def)

lemma trace_playing_append:
  "trace_playing b (cs @ ds) = trace_playing (trace_playing b cs) ds"
  by (induction b cs rule: trace_playing.induct) simp_all

lemma calls_play:
  "calls (snd (play w)) =
     calls w @
     (case currentStreamer (sp w) of
        None \<Rightarrow> []
      | Some h \<Rightarrow>
          SpeakerInit (SampleRate (format (sp w))) #
          (if device w (SampleRate (format (sp w)))
           then [SpeakerPlay (Volume (Loop (- 1) (Decoder h)) 2 (volume (sp w)) False)] else []))"
  by (auto simp: play_def speaker_Init_def streamer_Seek_def speaker_Play_def Let_def
      split: option.splits)

lemma sound_trace_play: "sound_trace w \<Longrightarrow> sound_trace (snd (play w))"
  by (auto simp: sound_trace_def sp_play calls_play trace_playing_append split: option.splits)

lemma sound_trace_pause: "sound_trace (pause w)"
  by (simp add: sound_trace_def pause_fields)

lemma sound_trace_loadSound: "sound_trace w \<Longrightarrow> sound_trace (snd (loadSound p w))"
  by (auto simp: sound_trace_def sp_loadSound loadSound_keeps split: file_status.splits)

lemma sound_trace_setVolume: "sound_trace w \<Longrightarrow> sound_trace (setVolume v w)"
proof -
  assume "sound_trace w"
  have "sound_trace (snd (play (pause (w\<lparr>sp := (sp w)\<lparr>volume := v\<rparr>\<rparr>))))"
    by (rule sound_trace_play [OF sound_trace_pause])
  moreover have "sound_trace (w\<lparr>sp := (sp w)\<lparr>volume := v\<rparr>\<rparr>)"
    using \<open>sound_trace w\<close> by (simp add: sound_trace_def)
  ultimately show ?thesis by (simp add: setVolume_def Let_def)
qed

lemma sound_trace_sound_clicked: "sound_trace w \<Longrightarrow> sound_trace (sound_clicked i w)"
proof -
  assume s: "sound_trace w"
  let ?r = "loadSound (sounds (sp w) ! i) w"
  have 1: "sound_trace (snd ?r)" by (rule sound_trace_loadSound [OF s])
  then have 2: "sound_trace ((snd ?r)\<lparr>logged := l\<rparr>)" for l
    by (simp add: sound_trace_def)
  show ?thesis
    by (cases "fst ?r") (simp_all add: sound_clicked_eq Let_def 1 2 sound_trace_play)
qed

lemma sound_trace_step: "sound_trace w \<Longrightarrow> sound_trace (step a w)"
  by (cases a)
     (simp_all add: sound_trace_play sound_trace_pause sound_trace_loadSound
       sound_trace_setVolume sound_trace_sound_clicked, simp_all add: sound_trace_def)

lemma sound_trace_run: "sound_trace w \<Longrightarrow> sound_trace (run as w)"
  by (induction as arbitrary: w) (simp_all add: sound_trace_step)

lemma sound_trace_initial: "sound_trace (initial snds f d)"
  by (simp add: sound_trace_def initial_def)

lemma fst_play:
  "fst (play w) =
     (case currentStreamer (sp w) of
        None \<Rightarrow> Some NoSoundLoaded
      | Some h \<Rightarrow>
          if \<not> device w (SampleRate (format (sp w))) then Some InitError
          else if h < length (handles w) \<and> h_failed (handles w ! h) then Some StreamError
          else None)"
  by (auto simp: play_def speaker_Init_def streamer_Seek_def speaker_Play_def Let_def
      split: option.splits)

lemma playing_step:
  "a \<noteq> Play \<Longrightarrow> isPlaying (sp (step a w)) \<Longrightarrow> isPlaying (sp w)"
  by (cases a)
     (auto simp: sp_loadSound sp_setVolume sp_sound_clicked pause_fields Let_def
      split: file_status.splits if_splits)

section \<open>The states of the program are states of runs\<close>

lemma run_append: "run (as @ bs) w = run bs (run as w)"
  by (induction as arbitrary: w) simp_all

lemma sounds_step: "sounds (sp (step a w)) = sounds (sp w)"
  by (cases a)
     (auto simp: sp_loadSound sp_play sp_setVolume sp_sound_clicked pause_fields Let_def
      split: file_status.splits)

lemma startup_run: "\<exists>as. startup w = run as w"
proof (cases "length (sounds (sp w)) > 0")
  case True
  then have "startup w = run [Load (sounds (sp w) ! 0), SetVolume (- 2), Play] w"
    by (simp add: startup_def Let_def)
  then show ?thesis ..
next
  case False
  then have "startup w = run [] w" by (simp add: startup_def)
  then show ?thesis ..
qed

lemma on_click_run: "\<exists>as. on_click c w = run as w"
proof (cases c)
  case ClickPlay
  then have "on_click c w = run [Play] w" by simp
  then show ?thesis ..
next
  case ClickPause
  then have "on_click c w = run [Pause] w" by simp
  then show ?thesis ..
next
  case ClickVolumeLow
  then have "on_click c w = run [SetVolume (- 3)] w" by simp
  then show ?thesis ..
next
  case ClickVolumeMedium
  then have "on_click c w = run [SetVolume (- 1)] w" by simp
  then show ?thesis ..
next
  case ClickVolumeHigh
  then have "on_click c w = run [SetVolume 0] w" by simp
  then show ?thesis ..
next
  case ClickQuit
  then have "on_click c w = run [] w" by simp
  then show ?thesis ..
qed

lemma poll_sounds_run:
  "i + length cs \<le> length (sounds (sp w)) \<Longrightarrow> \<exists>as. poll_sounds i cs w = run as w"
proof (induction cs arbitrary: i w)
  case Nil
  have "poll_sounds i [] w = run [] w" by simp
  then show ?case ..
next
  case (Cons c cs)
  show ?case
  proof (cases c)
    case True
    from Cons.prems have i: "i < length (sounds (sp w))" by simp
    then have s: "sound_clicked i w = step (SoundClicked i) w" by simp
    from Cons.prems have "Suc i + length cs \<le> length (sounds (sp (step (SoundClicked i) w)))"
      by (simp only: sounds_step) simp
    from Cons.IH [OF this] obtain as
      where "poll_sounds (Suc i) cs (step (SoundClicked i) w) = run as (step (SoundClicked i) w)" ..
    with True s have "poll_sounds i (c # cs) w = run (SoundClicked i # as) w" by simp
    then show ?thesis ..
  next
    case False
    from Cons.prems have "Suc i + length cs \<le> length (sounds (sp w))" by simp
    from Cons.IH [OF this] obtain as where "poll_sounds (Suc i) cs w = run as w" ..
    with False have "poll_sounds i (c # cs) w = run as w" by simp
    then show ?thesis ..
  qed
qed

lemma sounds_run: "sounds (sp (run as w)) = sounds (sp w)"
  by (induction as arbitrary: w) (simp_all add: sounds_step)

lemma turn_run: "\<exists>as. snd (turn c pending w) = run as w"
proof (cases "c = ClickQuit")
  case True
  then have "snd (turn c pending w) = run [] w" by (simp add: turn_def)
  then show ?thesis ..
next
  case False
  obtain as where as: "on_click c w = run as w" using on_click_run by blast
  have "0 + length (take (length (sounds (sp w))) pending) \<le> length (sounds (sp (on_click c w)))"
    by (simp add: as sounds_run)
  from poll_sounds_run [OF this] obtain bs
    where "poll_sounds 0 (take (length (sounds (sp w))) pending) (on_click c w) =
           run bs (on_click c w)" ..
  with False as have "snd (turn c pending w) = run (as @ bs) w"
    by (simp add: turn_def run_append)
  then show ?thesis ..
qed

lemma loop_run: "\<exists>as. loop es w = run as w"
proof (induction es arbitrary: w)
  case Nil
  have "loop [] w = run [] w" by simp
  then show ?case ..
next
  case (Cons e es)
  obtain c pending where e: "e = (c, pending)" by (cases e)
  obtain b w' where t: "turn c pending w = (b, w')" by (cases "turn c pending w")
  from turn_run [of c pending w] t obtain as where as: "w' = run as w" by auto
  show ?case
  proof (cases b)
    case True
    from Cons.IH [of w'] obtain bs where "loop es w' = run bs w'" ..
    with True t e as have "loop (e # es) w = run (as @ bs) w" by (simp add: run_append)
    then show ?thesis ..
  next
    case False
    with t e as have "loop (e # es) w = run as w" by simp
    then show ?thesis ..
  qed
qed

lemma main_state_run: "\<exists>as. main_state es f d = run as (initial main_sounds f d)"
proof -
  obtain as where as: "startup (initial main_sounds f d) = run as (initial main_sounds f d)"
    using startup_run by blast
  obtain bs where "loop es (startup (initial main_sounds f d)) =
      run bs (startup (initial main_sounds f d))"
    using loop_run by blast
  with as have "main_state es f d = run (as @ bs) (initial main_sounds f d)"
    by (simp add: main_state_def run_append)
  then show ?thesis ..
qed

text \<open>
  What \<^verbatim>\<open>setVolume\<close> does in a state of a run, by whether \<^verbatim>\<open>isPlaying\<close> was true and whether
  \<^verbatim>\<open>speaker.Init\<close> succeeds.
\<close>

lemma setVolume_effect:
  assumes "w = run as (initial snds f d)"
  shows "volume (sp (setVolume v w)) = v \<and>
         (\<not> isPlaying (sp w) \<longrightarrow>
            setVolume v w = w\<lparr>sp := (sp w)\<lparr>volume := v\<rparr>\<rparr> \<and>
            calls (setVolume v w) = calls w) \<and>
         (isPlaying (sp w) \<longrightarrow>
            (\<exists>h. currentStreamer (sp w) = Some h \<and>
               calls (setVolume v w) =
                 calls w @ [SpeakerClear, SpeakerInit (SampleRate (format (sp w)))] @
                 (if device w (SampleRate (format (sp w)))
                  then [SpeakerPlay (Volume (Loop (- 1) (Decoder h)) 2 v False)] else []) \<and>
               (device w (SampleRate (format (sp w))) \<longrightarrow>
                  mixer (setVolume v w) = [Volume (Loop (- 1) (Decoder h)) 2 v False] \<and>
                  sp (setVolume v w) = (sp w)\<lparr>volume := v\<rparr>)))"
proof -
  have t: "tidy w" unfolding assms by (rule tidy_reachable)
  have 1: "volume (sp (setVolume v w)) = v" by (simp add: sp_setVolume)
  have 2: "setVolume v w = w\<lparr>sp := (sp w)\<lparr>volume := v\<rparr>\<rparr> \<and> calls (setVolume v w) = calls w"
    if "\<not> isPlaying (sp w)"
    using that by (simp add: setVolume_stopped)
  have 3: "\<exists>h. currentStreamer (sp w) = Some h \<and>
         calls (setVolume v w) =
           calls w @ [SpeakerClear, SpeakerInit (SampleRate (format (sp w)))] @
           (if device w (SampleRate (format (sp w)))
            then [SpeakerPlay (Volume (Loop (- 1) (Decoder h)) 2 v False)] else []) \<and>
         (device w (SampleRate (format (sp w))) \<longrightarrow>
            mixer (setVolume v w) = [Volume (Loop (- 1) (Decoder h)) 2 v False] \<and>
            sp (setVolume v w) = (sp w)\<lparr>volume := v\<rparr>)"
    if p: "isPlaying (sp w)"
  proof -
    from tidy_playing [OF t p] obtain h where h: "currentStreamer (sp w) = Some h" ..
    have "sp (setVolume v w) = (sp w)\<lparr>volume := v\<rparr>" if "device w (SampleRate (format (sp w)))"
      using that p h by (simp add: sp_setVolume)
    with h setVolume_playing [OF p h, of v] show ?thesis by simp
  qed
  from 1 2 3 show ?thesis by blast
qed

section \<open>The example states\<close>

lemma fresh_value:
  "fresh =
     \<lparr>sp = \<lparr>sounds = demo_sounds, currentSound = [], currentStreamer = None,
            format = zero_Format, isPlaying = False, volume = 0\<rparr>,
      handles = [], mixer = [], calls = [], logged = [], fs = demo_fs, device = demo_device\<rparr>"
  by (simp add: fresh_def initial_def)

lemma loaded_a_value:
  "loaded_a =
     \<lparr>sp = \<lparr>sounds = demo_sounds, currentSound = ''a.mp3'', currentStreamer = Some 0,
            format = cd_format, isPlaying = False, volume = 0\<rparr>,
      handles = [\<lparr>h_path = ''a.mp3'', h_len = 1000, h_pos = 0, h_open = True, h_failed = False\<rparr>],
      mixer = [], calls = [], logged = [], fs = demo_fs, device = demo_device\<rparr>"
  by (simp add: loaded_a_def fresh_value loadSound_def close_existing_def open_sound_def
      demo_fs_def)

lemma playing_a_value:
  "playing_a =
     \<lparr>sp = \<lparr>sounds = demo_sounds, currentSound = ''a.mp3'', currentStreamer = Some 0,
            format = cd_format, isPlaying = True, volume = 0\<rparr>,
      handles = [\<lparr>h_path = ''a.mp3'', h_len = 1000, h_pos = 0, h_open = True, h_failed = False\<rparr>],
      mixer = [Volume (Loop (- 1) (Decoder 0)) 2 0 False],
      calls = [SpeakerInit 44100, SpeakerPlay (Volume (Loop (- 1) (Decoder 0)) 2 0 False)],
      logged = [], fs = demo_fs, device = demo_device\<rparr>"
  by (simp add: playing_a_def fresh_value loadSound_def close_existing_def open_sound_def
      play_def speaker_Init_def streamer_Seek_def speaker_Play_def demo_fs_def demo_device_def
      cd_format_def Let_def)

lemma advanced_a_value:
  "advanced_a =
     playing_a\<lparr>handles :=
       [\<lparr>h_path = ''a.mp3'', h_len = 1000, h_pos = 7, h_open = True, h_failed = False\<rparr>]\<rparr>"
  by (simp add: advanced_a_def playing_a_value streaming_def)

lemma playing_b_value:
  "playing_b =
     \<lparr>sp = \<lparr>sounds = demo_sounds, currentSound = ''b.mp3'', currentStreamer = Some 1,
            format = cd_format, isPlaying = True, volume = 0\<rparr>,
      handles = [\<lparr>h_path = ''a.mp3'', h_len = 1000, h_pos = 0, h_open = False, h_failed = False\<rparr>,
                 \<lparr>h_path = ''b.mp3'', h_len = 500, h_pos = 0, h_open = True, h_failed = False\<rparr>],
      mixer = [Volume (Loop (- 1) (Decoder 1)) 2 0 False],
      calls = [SpeakerInit 44100, SpeakerPlay (Volume (Loop (- 1) (Decoder 0)) 2 0 False),
               SpeakerInit 44100, SpeakerPlay (Volume (Loop (- 1) (Decoder 1)) 2 0 False)],
      logged = [], fs = demo_fs, device = demo_device\<rparr>"
  by (simp add: playing_b_def playing_a_value sound_clicked_def demo_sounds_def loadSound_def
      close_existing_def streamer_Close_def open_sound_def
      play_def speaker_Init_def streamer_Seek_def speaker_Play_def demo_fs_def demo_device_def
      cd_format_def Let_def)

lemma playing_a_run:
  "playing_a = run [Load ''a.mp3'', Play] (initial demo_sounds demo_fs demo_device)"
  by (simp add: playing_a_def fresh_def)

lemma failed_load_a_value:
  "failed_load_a =
     loaded_a\<lparr>handles :=
       [\<lparr>h_path = ''a.mp3'', h_len = 1000, h_pos = 0, h_open = False, h_failed = False\<rparr>]\<rparr>"
  by (simp add: failed_load_a_def loaded_a_value loadSound_def close_existing_def
      streamer_Close_def open_sound_def demo_fs_def)

lemma failed_load_a_run:
  "failed_load_a = run [Load ''a.mp3'', Load ''missing.mp3''] (initial demo_sounds demo_fs demo_device)"
  by (simp add: failed_load_a_def loaded_a_def fresh_def)

lemma idle_value:
  "idle = fresh\<lparr>calls := [SpeakerClear], sp := (sp fresh)\<lparr>volume := - 1\<rparr>\<rparr>"
  by (simp add: idle_def fresh_value loadSound_def close_existing_def open_sound_def demo_fs_def
      pause_def speaker_Clear_def setVolume_def)

lemma idle_run:
  "idle = run [Load ''missing.mp3'', Pause, SetVolume (- 1)] (initial demo_sounds demo_fs demo_device)"
  by (simp add: idle_def fresh_def)

lemma unplugged_a_value: "unplugged_a = playing_a\<lparr>device := no_device\<rparr>"
  by (simp add: unplugged_a_def)

lemma faulted_a_value:
  "faulted_a =
     \<lparr>sp = \<lparr>sounds = demo_sounds, currentSound = ''a.mp3'', currentStreamer = Some 0,
            format = cd_format, isPlaying = False, volume = 0\<rparr>,
      handles = [\<lparr>h_path = ''a.mp3'', h_len = 1000, h_pos = 0, h_open = True, h_failed = True\<rparr>],
      mixer = [],
      calls = [SpeakerInit 44100, SpeakerPlay (Volume (Loop (- 1) (Decoder 0)) 2 0 False),
               SpeakerClear],
      logged = [], fs = demo_fs, device = demo_device\<rparr>"
  by (simp add: faulted_a_def playing_a_value streaming_def pause_def speaker_Clear_def)

lemma loaded_a_run:
  "loaded_a = run [Load ''a.mp3''] (initial demo_sounds demo_fs demo_device)"
  by (simp add: loaded_a_def fresh_def)

lemma fresh_run: "fresh = run [] (initial demo_sounds demo_fs demo_device)"
  by (simp add: fresh_def)

lemma stale_a_value:
  "stale_a =
     \<lparr>sp = \<lparr>sounds = demo_sounds, currentSound = ''a.mp3'', currentStreamer = Some 0,
            format = cd_format, isPlaying = False, volume = 0\<rparr>,
      handles = [\<lparr>h_path = ''a.mp3'', h_len = 1000, h_pos = 7, h_open = False, h_failed = False\<rparr>],
      mixer = [],
      calls = [SpeakerInit 44100, SpeakerPlay (Volume (Loop (- 1) (Decoder 0)) 2 0 False),
               SpeakerClear],
      logged = [], fs = demo_fs, device = demo_device\<rparr>"
  by (simp add: stale_a_def advanced_a_value playing_a_value pause_def speaker_Clear_def
      loadSound_def close_existing_def streamer_Close_def open_sound_def demo_fs_def)

lemma stale_a_run:
  "stale_a = run [Load ''a.mp3'', Play, StreamAdvance 0 7, Pause, Load ''missing.mp3'']
     (initial demo_sounds demo_fs demo_device)"
  by (simp add: stale_a_def advanced_a_def playing_a_def fresh_def)

section \<open>The claims\<close>

text \<open>
  C8: in every state \<^verbatim>\<open>pause\<close> returns (it has no error to return), leaves the mixer of
  the speaker empty and \<^verbatim>\<open>isPlaying\<close> false, after one call of \<^verbatim>\<open>speaker.Clear\<close>; it changes
  nothing else. A second \<^verbatim>\<open>pause\<close> gives the state of the first: the two differ only in
  the trace, which records the second call of \<^verbatim>\<open>speaker.Clear\<close>.
\<close>

theorem pause_idempotent:
  "mixer (pause w) = [] \<and> \<not> isPlaying (sp (pause w)) \<and>
   calls (pause w) = calls w @ [SpeakerClear] \<and>
   forget_calls (pause w) = forget_calls (w\<lparr>mixer := [], sp := (sp w)\<lparr>isPlaying := False\<rparr>\<rparr>) \<and>
   forget_calls (pause (pause w)) = forget_calls (pause w) \<and>
   \<not> isPlaying (sp (pause (pause w)))"
  by (simp add: pause_def speaker_Clear_def forget_calls_def)

text \<open>
  C2: the claim holds of \<^verbatim>\<open>play\<close> except for the seek. In the state reached by loading and
  playing \<^verbatim>\<open>a.mp3\<close>, streaming 7 frames, pausing and then failing to load another file,
  \<^verbatim>\<open>currentStreamer\<close> is not \<^verbatim>\<open>nil\<close> and its decoder is closed. There \<^verbatim>\<open>play\<close> returns no
  error, submits the endless loop of the decoder at the stored volume as the only stream
  and sets \<^verbatim>\<open>isPlaying\<close>, but the decoder is not at position 0: \<^verbatim>\<open>Seek(0)\<close> has failed and
  line 61 drops its error, under the comment "Reset streamer to beginning".
\<close>

theorem play_stale_decoder_keeps_position:
  "currentStreamer (sp stale_a) = Some 0 \<and>
   \<not> h_open (handles stale_a ! 0) \<and>
   h_pos (handles stale_a ! 0) = 7 \<and>
   fst (play stale_a) = None \<and>
   mixer (snd (play stale_a)) = [Volume (Loop (- 1) (Decoder 0)) 2 0 False] \<and>
   isPlaying (sp (snd (play stale_a))) \<and>
   h_pos (handles (snd (play stale_a)) ! 0) = 7"
  by (simp add: stale_a_value play_def speaker_Init_def streamer_Seek_def speaker_Play_def
      demo_device_def Let_def)

text \<open>
  C6: in every state of every run from the start of \<^verbatim>\<open>main\<close> at most one decoder is open.
  \<^verbatim>\<open>loadSound\<close> first closes the current decoder and then opens the file: at the moment it
  opens the file no decoder is open, every decoder made before the call is closed after
  it, and at most one decoder is open after it.
\<close>

theorem one_open_handle:
  assumes "w = run as (initial snds f d)"
  shows "length (open_handles w) \<le> 1 \<and>
         open_handles (close_existing w) = [] \<and>
         loadSound p w = open_sound p (close_existing w) \<and>
         (\<forall>i < length (handles w). \<not> h_open (handles (snd (loadSound p w)) ! i)) \<and>
         length (open_handles (snd (loadSound p w))) \<le> 1"
proof -
  have t: "tidy w" unfolding assms by (rule tidy_reachable)
  have closed: "\<forall>i < length (handles (close_existing w)). \<not> h_open (handles (close_existing w) ! i)"
    using t by (simp add: close_existing_fields close_existing_all_closed)
  have 1: "length (open_handles w) \<le> 1" using t by (rule tidy_one_open)
  have 2: "open_handles (close_existing w) = []"
    using closed by (rule all_closed_none_open)
  have 3: "\<forall>i < length (handles w). \<not> h_open (handles (snd (loadSound p w)) ! i)"
    using t by (simp add: loadSound_old_handles close_existing_all_closed)
  have 4: "length (open_handles (snd (loadSound p w))) \<le> 1"
    by (rule tidy_one_open [OF tidy_loadSound [OF t]])
  show ?thesis using 1 2 3 4 by (simp add: loadSound_def)
qed

text \<open>
  The theorem at the state that plays \<^verbatim>\<open>a.mp3\<close>, and a load of \<^verbatim>\<open>b.mp3\<close> there: one decoder
  is open before, none when the file is opened, and after the load the old decoder is
  closed and the new one is the only one open.
\<close>

theorem one_open_handle_witness:
  "length (open_handles playing_a) = 1 \<and>
   open_handles (close_existing playing_a) = [] \<and>
   \<not> h_open (handles (snd (loadSound ''b.mp3'' playing_a)) ! 0) \<and>
   h_open (handles (snd (loadSound ''b.mp3'' playing_a)) ! 1) \<and>
   length (open_handles (snd (loadSound ''b.mp3'' playing_a))) = 1"
proof -
  have v: "snd (loadSound ''b.mp3'' playing_a) =
      playing_b\<lparr>mixer := mixer playing_a, calls := calls playing_a\<rparr>"
    by (simp add: playing_b_value playing_a_value loadSound_def
      close_existing_def streamer_Close_def open_sound_def demo_fs_def)
  have e: "length (open_handles playing_a) = 1" "length (handles playing_a) = 1"
    by (simp_all add: playing_a_value open_handles_def)
  have e': "h_open (handles (snd (loadSound ''b.mp3'' playing_a)) ! 1)"
    "length (open_handles (snd (loadSound ''b.mp3'' playing_a))) = 1"
    unfolding v by (simp_all add: playing_b_value open_handles_def)
  from one_open_handle [OF playing_a_run, of "''b.mp3''"] e e'
  show ?thesis by auto
qed

text \<open>
  C9: when the list of sounds is not empty, the load of its first sound returns no error
  and the \<^verbatim>\<open>play\<close> that ends the startup sequence returns no error, then after the sequence
  the first sound is the current one, on the one decoder made, which is open; the volume
  is -2; \<^verbatim>\<open>isPlaying\<close> is true; and the speaker plays one stream, the endless loop of that
  decoder at volume -2.
\<close>

theorem startup_plays_first:
  assumes "snds \<noteq> []"
    and "fst (loadSound (snds ! 0) (initial snds f d)) = None"
    and "fst (play (setVolume (- 2) (snd (loadSound (snds ! 0) (initial snds f d))))) = None"
  shows "currentSound (sp (startup (initial snds f d))) = snds ! 0 \<and>
         currentStreamer (sp (startup (initial snds f d))) = Some 0 \<and>
         length (handles (startup (initial snds f d))) = 1 \<and>
         h_path (handles (startup (initial snds f d)) ! 0) = snds ! 0 \<and>
         h_open (handles (startup (initial snds f d)) ! 0) \<and>
         volume (sp (startup (initial snds f d))) = - 2 \<and>
         isPlaying (sp (startup (initial snds f d))) \<and>
         mixer (startup (initial snds f d)) = [Volume (Loop (- 1) (Decoder 0)) 2 (- 2) False] \<and>
         calls (startup (initial snds f d)) =
           [SpeakerInit (SampleRate (format (sp (startup (initial snds f d))))),
            SpeakerPlay (Volume (Loop (- 1) (Decoder 0)) 2 (- 2) False)]"
proof -
  let ?start = "initial snds f d"
  obtain fmt len where fsd: "f (snds ! 0) = Decodable fmt len"
    using assms(2) by (auto simp: fst_loadSound initial_def split: file_status.splits)
  define w1 where "w1 = snd (loadSound (snds ! 0) ?start)"
  have w1: "w1 = \<lparr>sp = \<lparr>sounds = snds, currentSound = snds ! 0, currentStreamer = Some 0,
            format = fmt, isPlaying = False, volume = 0\<rparr>,
      handles = [\<lparr>h_path = snds ! 0, h_len = len, h_pos = 0, h_open = True, h_failed = False\<rparr>],
      mixer = [], calls = [], logged = [], fs = f, device = d\<rparr>"
    by (simp add: w1_def loadSound_def close_existing_def open_sound_def initial_def fsd)
  define w2 where "w2 = setVolume (- 2) w1"
  have w2: "w2 = w1\<lparr>sp := (sp w1)\<lparr>volume := - 2\<rparr>\<rparr>"
    by (simp add: w2_def setVolume_def w1)
  have cur: "currentStreamer (sp w2) = Some 0" by (simp add: w2 w1)
  have dev: "device w2 (SampleRate (format (sp w2)))"
  proof (rule ccontr)
    assume "\<not> device w2 (SampleRate (format (sp w2)))"
    from play_no_device [OF cur this] assms(3) show False
      by (simp add: w2_def w1_def)
  qed
  have s: "startup ?start = snd (play w2)"
    using assms(1) by (simp add: startup_def w2_def w1_def initial_def Let_def)
  show ?thesis
    unfolding s by (simp add: play_submit [OF cur dev]) (simp add: w2 w1)
qed

text \<open>The theorem in the example environment, whose first sound is \<^verbatim>\<open>a.mp3\<close>.\<close>

theorem startup_plays_first_witness:
  "currentSound (sp (startup fresh)) = ''a.mp3'' \<and>
   volume (sp (startup fresh)) = - 2 \<and>
   isPlaying (sp (startup fresh)) \<and>
   mixer (startup fresh) = [Volume (Loop (- 1) (Decoder 0)) 2 (- 2) False]"
proof -
  have a: "demo_sounds \<noteq> []" "demo_sounds ! 0 = ''a.mp3''" by (simp_all add: demo_sounds_def)
  have l: "loadSound ''a.mp3'' fresh = (None, loaded_a)"
    by (simp add: loaded_a_value fresh_value loadSound_def close_existing_def open_sound_def
        demo_fs_def)
  have p: "fst (play (setVolume (- 2) loaded_a)) = None"
    by (simp add: loaded_a_value setVolume_def play_def speaker_Init_def streamer_Seek_def
        speaker_Play_def demo_device_def Let_def)
  from startup_plays_first [of demo_sounds demo_fs demo_device, folded fresh_def] a l p
  show ?thesis by simp
qed

text \<open>
  C10: no step of a run sets \<^verbatim>\<open>currentStreamer\<close> back to \<^verbatim>\<open>nil\<close>. After a load that
  succeeded, in every later state of the run \<^verbatim>\<open>currentStreamer\<close> is not \<^verbatim>\<open>nil\<close> and \<^verbatim>\<open>play\<close>
  does not return the error "no sound loaded". A load that fails there leaves
  \<^verbatim>\<open>currentStreamer\<close> at the decoder it pointed to, which is then closed, and \<^verbatim>\<open>play\<close> right
  after it still does not return "no sound loaded".
\<close>

theorem current_streamer_stays:
  assumes "w0 = run as0 (initial snds f d)"
    and "loadSound q w0 = (None, w1)"
    and "w = run as w1"
  shows "currentStreamer (sp w1) \<noteq> None \<and>
         currentStreamer (sp w) \<noteq> None \<and>
         fst (play w) \<noteq> Some NoSoundLoaded \<and>
         (fst (loadSound p w) \<noteq> None \<longrightarrow>
            currentStreamer (sp (snd (loadSound p w))) = currentStreamer (sp w) \<and>
            (\<forall>h. currentStreamer (sp w) = Some h \<longrightarrow>
                 h < length (handles (snd (loadSound p w))) \<and>
                 \<not> h_open (handles (snd (loadSound p w)) ! h)) \<and>
            fst (play (snd (loadSound p w))) \<noteq> Some NoSoundLoaded)"
proof -
  have w1: "w1 = snd (loadSound q w0)" and ok: "fst (loadSound q w0) = None"
    using assms(2) by simp_all
  have c1: "currentStreamer (sp w1) \<noteq> None"
    unfolding w1 using loadSound_sets_streamer [OF ok] by simp
  have t1: "tidy w1" unfolding w1 assms(1) by (rule tidy_loadSound [OF tidy_reachable])
  have t: "tidy w" unfolding assms(3) by (rule tidy_run [OF t1])
  have c: "currentStreamer (sp w) \<noteq> None"
    unfolding assms(3) by (rule streamer_kept_run [OF c1])
  have p: "fst (play w) \<noteq> Some NoSoundLoaded" using c by (simp add: fst_play_nil)
  have fl: "currentStreamer (sp (snd (loadSound p w))) = currentStreamer (sp w) \<and>
            (\<forall>h. currentStreamer (sp w) = Some h \<longrightarrow>
                 h < length (handles (snd (loadSound p w))) \<and>
                 \<not> h_open (handles (snd (loadSound p w)) ! h)) \<and>
            fst (play (snd (loadSound p w))) \<noteq> Some NoSoundLoaded"
    if bad: "fst (loadSound p w) \<noteq> None"
  proof -
    have s: "sp (snd (loadSound p w)) = sp w" by (rule loadSound_failed_streamer [OF bad])
    have e: "snd (loadSound p w) = close_existing w" by (rule loadSound_error [OF bad])
    have "h < length (handles (close_existing w)) \<and> \<not> h_open (handles (close_existing w) ! h)"
      if h: "currentStreamer (sp w) = Some h" for h
    proof -
      from tidy_current [OF t h] have "h < length (handles w)" by simp
      then show ?thesis
        by (simp add: close_existing_fields close_existing_all_closed [OF t])
    qed
    with s c show ?thesis by (simp add: e fst_play_nil close_existing_fields)
  qed
  from c1 c p fl show ?thesis by blast
qed

text \<open>
  The theorem after the load of \<^verbatim>\<open>a.mp3\<close>, followed by the load of a file that does not
  exist: the struct still points to the decoder of \<^verbatim>\<open>a.mp3\<close>, now closed, and \<^verbatim>\<open>play\<close>
  returns no error at all.
\<close>

theorem current_streamer_stays_witness:
  "loadSound ''a.mp3'' fresh = (None, loaded_a) \<and>
   fst (loadSound ''missing.mp3'' loaded_a) = Some (OpenError ''missing.mp3'') \<and>
   currentStreamer (sp failed_load_a) = Some 0 \<and>
   \<not> h_open (handles failed_load_a ! 0) \<and>
   fst (play failed_load_a) \<noteq> Some NoSoundLoaded \<and>
   fst (play failed_load_a) = None"
proof -
  have l: "loadSound ''a.mp3'' fresh = (None, loaded_a)"
    by (simp add: loaded_a_value fresh_value loadSound_def close_existing_def open_sound_def
        demo_fs_def)
  have r: "loaded_a = run [] loaded_a" by simp
  have b: "fst (loadSound ''missing.mp3'' loaded_a) = Some (OpenError ''missing.mp3'')"
    by (simp add: fst_loadSound loaded_a_value demo_fs_def)
  have v: "snd (loadSound ''missing.mp3'' loaded_a) = failed_load_a"
    by (simp add: failed_load_a_def)
  have e: "currentStreamer (sp loaded_a) = Some 0" "fst (play failed_load_a) = None"
    by (simp_all add: failed_load_a_value loaded_a_value play_def speaker_Init_def
        streamer_Seek_def speaker_Play_def demo_device_def Let_def)
  note t = current_streamer_stays [OF fresh_run l r, of "''missing.mp3''"]
  from t b have 1: "currentStreamer (sp (snd (loadSound ''missing.mp3'' loaded_a))) =
        currentStreamer (sp loaded_a)"
    and 2: "\<forall>h. currentStreamer (sp loaded_a) = Some h \<longrightarrow>
                 h < length (handles (snd (loadSound ''missing.mp3'' loaded_a))) \<and>
                 \<not> h_open (handles (snd (loadSound ''missing.mp3'' loaded_a)) ! h)"
    and 3: "fst (play (snd (loadSound ''missing.mp3'' loaded_a))) \<noteq> Some NoSoundLoaded"
    by simp_all
  from 2 e(1) have 4: "\<not> h_open (handles (snd (loadSound ''missing.mp3'' loaded_a)) ! 0)"
    by simp
  from l b 1 3 4 e show ?thesis unfolding v by simp
qed

text \<open>
  C1, as the claim states it, fails: after the load of \<^verbatim>\<open>a.mp3\<close>, a load of a file that
  does not exist returns an error and the decoder of \<^verbatim>\<open>a.mp3\<close>, open before the call and
  still the current one after it, is closed.
\<close>

theorem load_error_closes_counterexample:
  "currentStreamer (sp loaded_a) = Some 0 \<and>
   h_open (handles loaded_a ! 0) \<and>
   fst (loadSound ''missing.mp3'' loaded_a) = Some (OpenError ''missing.mp3'') \<and>
   currentStreamer (sp (snd (loadSound ''missing.mp3'' loaded_a))) = Some 0 \<and>
   \<not> h_open (handles (snd (loadSound ''missing.mp3'' loaded_a)) ! 0)"
  by (simp add: loaded_a_value loadSound_def close_existing_def streamer_Close_def
      open_sound_def demo_fs_def)

text \<open>
  C1, amended: when \<^verbatim>\<open>loadSound\<close> returns an error, the struct is unchanged (the sounds,
  the current sound, the reference to the current decoder, the format, \<^verbatim>\<open>isPlaying\<close> and
  the volume) and so is the speaker; the call has done what its first lines do and
  nothing more: the decoder that was current is closed, every other decoder is as it
  was. The loop then logs the error and goes on.
\<close>

theorem load_error_keeps_struct:
  assumes "fst (loadSound p w) = Some e"
  shows "sp (snd (loadSound p w)) = sp w \<and>
         snd (loadSound p w) = close_existing w \<and>
         mixer (snd (loadSound p w)) = mixer w \<and>
         calls (snd (loadSound p w)) = calls w \<and>
         length (handles (snd (loadSound p w))) = length (handles w) \<and>
         (\<forall>i < length (handles w).
            handles (snd (loadSound p w)) ! i =
              (if currentStreamer (sp w) = Some i
               then (handles w ! i)\<lparr>h_open := False\<rparr> else handles w ! i)) \<and>
         (\<forall>i. sounds (sp w) ! i = p \<longrightarrow> logged (sound_clicked i w) = logged w @ [e])"
proof -
  have bad: "fst (loadSound p w) \<noteq> None" using assms by simp
  have e: "snd (loadSound p w) = close_existing w" by (rule loadSound_error [OF bad])
  show ?thesis
    using assms
    by (simp add: e close_existing_fields close_existing_nth logged_sound_clicked)
qed

text \<open>
  The theorem at the state that plays \<^verbatim>\<open>a.mp3\<close>, for a click on the third sound, which
  does not decode.
\<close>

theorem load_error_keeps_struct_witness:
  "fst (loadSound ''bad.mp3'' playing_a) = Some (DecodeError ''bad.mp3'') \<and>
   sp (snd (loadSound ''bad.mp3'' playing_a)) = sp playing_a \<and>
   mixer (snd (loadSound ''bad.mp3'' playing_a)) = mixer playing_a \<and>
   h_open (handles playing_a ! 0) \<and>
   \<not> h_open (handles (snd (loadSound ''bad.mp3'' playing_a)) ! 0) \<and>
   logged (sound_clicked 2 playing_a) = [DecodeError ''bad.mp3'']"
proof -
  have b: "fst (loadSound ''bad.mp3'' playing_a) = Some (DecodeError ''bad.mp3'')"
    by (simp add: fst_loadSound playing_a_value demo_fs_def)
  have a: "currentStreamer (sp playing_a) = Some 0" "length (handles playing_a) = 1"
    "h_open (handles playing_a ! 0)" "sounds (sp playing_a) ! 2 = ''bad.mp3''"
    "logged playing_a = []"
    by (simp_all add: playing_a_value demo_sounds_def)
  note t = load_error_keeps_struct [OF b]
  from t have 1: "sp (snd (loadSound ''bad.mp3'' playing_a)) = sp playing_a"
    and 2: "mixer (snd (loadSound ''bad.mp3'' playing_a)) = mixer playing_a"
    and 3: "\<forall>i < length (handles playing_a).
            handles (snd (loadSound ''bad.mp3'' playing_a)) ! i =
              (if currentStreamer (sp playing_a) = Some i
               then (handles playing_a ! i)\<lparr>h_open := False\<rparr> else handles playing_a ! i)"
    and 4: "\<forall>i. sounds (sp playing_a) ! i = ''bad.mp3'' \<longrightarrow>
            logged (sound_clicked i playing_a) = logged playing_a @ [DecodeError ''bad.mp3'']"
    by blast+
  from 3 a have 5: "\<not> h_open (handles (snd (loadSound ''bad.mp3'' playing_a)) ! 0)" by simp
  from 4 a have 6: "logged (sound_clicked 2 playing_a) = [DecodeError ''bad.mp3'']" by simp
  from b 1 2 a(3) 5 6 show ?thesis by blast
qed

text \<open>
  C3: the claim fails on the code where the restart cannot open the device. While
  \<^verbatim>\<open>a.mp3\<close> plays, on a speaker that an earlier \<^verbatim>\<open>play\<close> has initialised, and the device
  can no longer be opened, \<^verbatim>\<open>setVolume(-3)\<close> stores the level and calls \<^verbatim>\<open>speaker.Clear\<close> and
  then \<^verbatim>\<open>speaker.Init\<close> again, which fails: no stream is submitted, the mixer is left empty
  and \<^verbatim>\<open>isPlaying\<close> is false. The comment on line 55 reads "Initialize speaker if not
  already initialized"; the code calls \<^verbatim>\<open>speaker.Init\<close> on every \<^verbatim>\<open>play\<close>.
\<close>

theorem setVolume_restart_no_submit:
  "calls unplugged_a =
     [SpeakerInit 44100, SpeakerPlay (Volume (Loop (- 1) (Decoder 0)) 2 0 False)] \<and>
   isPlaying (sp unplugged_a) \<and>
   calls (setVolume (- 3) unplugged_a) =
     calls unplugged_a @ [SpeakerClear, SpeakerInit 44100] \<and>
   mixer (setVolume (- 3) unplugged_a) = [] \<and>
   volume (sp (setVolume (- 3) unplugged_a)) = - 3 \<and>
   \<not> isPlaying (sp (setVolume (- 3) unplugged_a))"
  by (simp add: unplugged_a_value playing_a_value setVolume_def pause_def speaker_Clear_def
      play_def speaker_Init_def no_device_def cd_format_def Let_def)

text \<open>
  C4, as the claim states it, fails: while \<^verbatim>\<open>a.mp3\<close> plays, a click on the third sound,
  which does not decode, leaves \<^verbatim>\<open>a.mp3\<close> the current sound on its old decoder, now
  closed; no new decoder is made, and the stream that is restarted reads from the closed
  one.
\<close>

theorem sound_clicked_failed_counterexample:
  "isPlaying (sp playing_a) \<and>
   sounds (sp playing_a) ! 2 = ''bad.mp3'' \<and>
   currentSound (sp (sound_clicked 2 playing_a)) = ''a.mp3'' \<and>
   currentStreamer (sp (sound_clicked 2 playing_a)) = Some 0 \<and>
   length (handles (sound_clicked 2 playing_a)) = 1 \<and>
   \<not> h_open (handles (sound_clicked 2 playing_a) ! 0) \<and>
   mixer (sound_clicked 2 playing_a) = [Volume (Loop (- 1) (Decoder 0)) 2 0 False]"
  by (simp add: playing_a_value demo_sounds_def sound_clicked_def loadSound_def
      close_existing_def streamer_Close_def open_sound_def demo_fs_def play_def speaker_Init_def
      streamer_Seek_def speaker_Play_def demo_device_def Let_def)

text \<open>
  C4, amended: in every state of a run with \<^verbatim>\<open>isPlaying\<close> true, when the file of sound \<open>i\<close>
  decodes and the device opens for its sample rate, the click on sound \<open>i\<close> closes the
  old decoder, makes sound \<open>i\<close> the current sound on a new decoder (open, at position 0),
  and leaves the speaker with one stream, the loop of the new decoder at the volume
  stored before, which is unchanged; \<^verbatim>\<open>isPlaying\<close> is true and nothing is logged.
\<close>

theorem sound_clicked_switches:
  assumes "w = run as (initial snds f d)"
    and "isPlaying (sp w)"
    and "i < length (sounds (sp w))"
    and "fs w (sounds (sp w) ! i) = Decodable fmt len"
    and "device w (SampleRate fmt)"
  shows "currentSound (sp (sound_clicked i w)) = sounds (sp w) ! i \<and>
         currentStreamer (sp (sound_clicked i w)) = Some (length (handles w)) \<and>
         handles (sound_clicked i w) =
           handles (close_existing w) @
           [\<lparr>h_path = sounds (sp w) ! i, h_len = len, h_pos = 0, h_open = True, h_failed = False\<rparr>] \<and>
         (\<forall>j < length (handles w). \<not> h_open (handles (sound_clicked i w) ! j)) \<and>
         format (sp (sound_clicked i w)) = fmt \<and>
         volume (sp (sound_clicked i w)) = volume (sp w) \<and>
         isPlaying (sp (sound_clicked i w)) \<and>
         mixer (sound_clicked i w) =
           [Volume (Loop (- 1) (Decoder (length (handles w)))) 2 (volume (sp w)) False] \<and>
         logged (sound_clicked i w) = logged w"
proof -
  let ?p = "sounds (sp w) ! i"
  let ?n = "length (handles w)"
  let ?c = "close_existing w"
  have t: "tidy w" unfolding assms(1) by (rule tidy_reachable)
  define w1 where "w1 = snd (loadSound ?p w)"
  have ok: "fst (loadSound ?p w) = None" by (simp add: fst_loadSound assms(4))
  have w1: "w1 = ?c\<lparr>handles := handles ?c @
                [\<lparr>h_path = ?p, h_len = len, h_pos = 0, h_open = True, h_failed = False\<rparr>],
              sp := (sp ?c)\<lparr>currentStreamer := Some (length (handles ?c)),
                           format := fmt, currentSound := ?p\<rparr>\<rparr>"
    unfolding w1_def loadSound_def
    by (subst open_sound_ok [where fmt = fmt and len = len])
       (simp_all add: close_existing_fields assms(4))
  have s1: "sp w1 = (sp w)\<lparr>currentStreamer := Some ?n, format := fmt, currentSound := ?p\<rparr>"
    and h1: "handles w1 = handles ?c @
                [\<lparr>h_path = ?p, h_len = len, h_pos = 0, h_open = True, h_failed = False\<rparr>]"
    and d1: "device w1 = device w" and l1: "logged w1 = logged w"
    by (simp_all add: w1 close_existing_fields)
  have cur: "currentStreamer (sp w1) = Some ?n" by (simp add: s1)
  have dev: "device w1 (SampleRate (format (sp w1)))" by (simp add: s1 d1 assms(5))
  have sc: "sound_clicked i w = snd (play w1)"
    using ok assms(2) by (simp add: sound_clicked_eq Let_def w1_def [symmetric] s1)
  have closed: "\<not> h_open (handles ?c ! j)" if "j < ?n" for j
    using that by (rule close_existing_all_closed [OF t])
  have hs: "handles (snd (play w1)) = handles w1"
    by (simp add: play_submit(7) [OF cur dev] h1 close_existing_fields nth_append)
       (simp add: list_update_append close_existing_fields)
  show ?thesis
    unfolding sc
    by (simp add: play_submit(1,2,4) [OF cur dev] hs)
       (simp add: s1 h1 l1 nth_append close_existing_fields closed)
qed

text \<open>The theorem at the state that plays \<^verbatim>\<open>a.mp3\<close>, for a click on the second sound, \<^verbatim>\<open>b.mp3\<close>.\<close>

theorem sound_clicked_switches_witness:
  "isPlaying (sp playing_a) \<and>
   currentSound (sp (sound_clicked 1 playing_a)) = ''b.mp3'' \<and>
   currentStreamer (sp (sound_clicked 1 playing_a)) = Some 1 \<and>
   \<not> h_open (handles (sound_clicked 1 playing_a) ! 0) \<and>
   h_open (handles (sound_clicked 1 playing_a) ! 1) \<and>
   volume (sp (sound_clicked 1 playing_a)) = 0 \<and>
   isPlaying (sp (sound_clicked 1 playing_a)) \<and>
   mixer (sound_clicked 1 playing_a) = [Volume (Loop (- 1) (Decoder 1)) 2 0 False]"
proof -
  have a: "isPlaying (sp playing_a)" "1 < length (sounds (sp playing_a))"
    "fs playing_a (sounds (sp playing_a) ! 1) = Decodable cd_format 500"
    "device playing_a (SampleRate cd_format)"
    by (simp_all add: playing_a_value demo_sounds_def demo_fs_def demo_device_def)
  have b: "length (handles playing_a) = 1" "volume (sp playing_a) = 0"
    "handles (close_existing playing_a) =
       [\<lparr>h_path = ''a.mp3'', h_len = 1000, h_pos = 0, h_open = False, h_failed = False\<rparr>]"
    by (simp_all add: playing_a_value close_existing_def streamer_Close_def)
  note t = sound_clicked_switches [OF playing_a_run a]
  from t have 1: "currentSound (sp (sound_clicked 1 playing_a)) = sounds (sp playing_a) ! 1"
    and 2: "currentStreamer (sp (sound_clicked 1 playing_a)) = Some (length (handles playing_a))"
    and 3: "handles (sound_clicked 1 playing_a) =
           handles (close_existing playing_a) @
           [\<lparr>h_path = sounds (sp playing_a) ! 1, h_len = 500, h_pos = 0,
             h_open = True, h_failed = False\<rparr>]"
    and 4: "volume (sp (sound_clicked 1 playing_a)) = volume (sp playing_a)"
    and 5: "isPlaying (sp (sound_clicked 1 playing_a))"
    and 6: "mixer (sound_clicked 1 playing_a) =
           [Volume (Loop (- 1) (Decoder (length (handles playing_a)))) 2 (volume (sp playing_a)) False]"
    by blast+
  have s: "sounds (sp playing_a) ! 1 = ''b.mp3''" by (simp add: playing_a_value demo_sounds_def)
  from a(1) 1 2 3 4 5 6 b s show ?thesis by simp
qed

text \<open>
  C5, as the claim states it, fails: after the load of \<^verbatim>\<open>a.mp3\<close> and a failed load, no
  decoder is open and nothing is playing, yet \<^verbatim>\<open>play\<close> returns no error, submits a stream
  and sets \<^verbatim>\<open>isPlaying\<close>.
\<close>

theorem play_closed_handle_counterexample:
  "open_handles failed_load_a = [] \<and>
   \<not> isPlaying (sp failed_load_a) \<and>
   fst (play failed_load_a) = None \<and>
   mixer (snd (play failed_load_a)) = [Volume (Loop (- 1) (Decoder 0)) 2 0 False] \<and>
   isPlaying (sp (snd (play failed_load_a)))"
  by (simp add: failed_load_a_value loaded_a_value open_handles_def play_def speaker_Init_def
      streamer_Seek_def speaker_Play_def demo_device_def Let_def)

text \<open>
  C5, amended: in every state of a run in which \<^verbatim>\<open>currentStreamer\<close> is \<^verbatim>\<open>nil\<close> (no load has
  succeeded yet, so no decoder exists), \<^verbatim>\<open>play\<close> returns the error "no sound loaded" and
  changes nothing: no call reaches the speaker and \<^verbatim>\<open>isPlaying\<close>, which is false there,
  stays false.
\<close>

theorem play_nothing_loaded:
  assumes "w = run as (initial snds f d)"
    and "currentStreamer (sp w) = None"
  shows "play w = (Some NoSoundLoaded, w) \<and>
         \<not> isPlaying (sp w) \<and>
         \<not> isPlaying (sp (snd (play w))) \<and>
         calls (snd (play w)) = calls w \<and>
         mixer (snd (play w)) = mixer w \<and>
         handles w = []"
proof -
  have "tidy w" unfolding assms(1) by (rule tidy_reachable)
  with assms(2) have "handles w = []" and "\<not> isPlaying (sp w)"
    by (simp_all add: tidy_def)
  then show ?thesis by (simp add: play_nil [OF assms(2)])
qed

text \<open>The theorem after a failed load, a pause and a change of volume.\<close>

theorem play_nothing_loaded_witness:
  "currentStreamer (sp idle) = None \<and>
   play idle = (Some NoSoundLoaded, idle) \<and>
   \<not> isPlaying (sp (snd (play idle))) \<and>
   calls (snd (play idle)) = [SpeakerClear]"
proof -
  have c: "currentStreamer (sp idle) = None" "calls idle = [SpeakerClear]"
    by (simp_all add: idle_value fresh_value)
  note t = play_nothing_loaded [OF idle_run c(1)]
  from t have 1: "play idle = (Some NoSoundLoaded, idle)"
    and 2: "\<not> isPlaying (sp (snd (play idle)))"
    and 3: "calls (snd (play idle)) = calls idle"
    by blast+
  from c 1 2 3 show ?thesis by simp
qed

text \<open>
  C7, as the claim states it, fails: after \<^verbatim>\<open>a.mp3\<close> has played, its decoder has met a
  read error and playback has been paused, \<^verbatim>\<open>play\<close> returns that error, so it fails, and
  \<^verbatim>\<open>isPlaying\<close> has been set to true by the call.
\<close>

theorem play_fails_playing_counterexample:
  "\<not> isPlaying (sp faulted_a) \<and>
   fst (play faulted_a) = Some StreamError \<and>
   isPlaying (sp (snd (play faulted_a)))"
  by (simp add: faulted_a_value fst_play sp_play demo_device_def)

text \<open>
  C7, amended: in every state of a run, \<^verbatim>\<open>isPlaying\<close> is true only if a stream has been
  submitted to the speaker since the last \<^verbatim>\<open>speaker.Clear\<close>, that is after a \<^verbatim>\<open>play\<close> that
  reached \<^verbatim>\<open>speaker.Play\<close> and before any later \<^verbatim>\<open>pause\<close>. No step other than \<^verbatim>\<open>play\<close> turns
  \<^verbatim>\<open>isPlaying\<close> from false to true; \<^verbatim>\<open>pause\<close> sets it to false. \<^verbatim>\<open>play\<close> sets it to true
  exactly when it passes the test for \<^verbatim>\<open>nil\<close> and \<^verbatim>\<open>speaker.Init\<close>; it then returns \<^verbatim>\<open>nil\<close>
  or the read error kept by the decoder. When \<^verbatim>\<open>play\<close> fails with "no sound loaded" or
  with the error of \<^verbatim>\<open>speaker.Init\<close>, it leaves the struct as it was.
\<close>

theorem playing_only_after_submit:
  assumes "r = run as (initial snds f d)"
  shows "(isPlaying (sp r) \<longrightarrow> trace_playing False (calls r)) \<and>
         (\<forall>a. a \<noteq> Play \<longrightarrow> isPlaying (sp (step a w)) \<longrightarrow> isPlaying (sp w)) \<and>
         \<not> isPlaying (sp (pause w)) \<and>
         isPlaying (sp (snd (play w))) = (isPlaying (sp w) \<or> submits w) \<and>
         (submits w \<longleftrightarrow> fst (play w) = None \<or> fst (play w) = Some StreamError) \<and>
         (\<not> submits w \<longleftrightarrow> fst (play w) = Some NoSoundLoaded \<or> fst (play w) = Some InitError) \<and>
         (\<not> submits w \<longrightarrow> sp (snd (play w)) = sp w)"
proof -
  have "sound_trace r" unfolding assms
    by (rule sound_trace_run [OF sound_trace_initial])
  then have 1: "isPlaying (sp r) \<longrightarrow> trace_playing False (calls r)"
    by (auto simp: sound_trace_def)
  have 2: "\<forall>a. a \<noteq> Play \<longrightarrow> isPlaying (sp (step a w)) \<longrightarrow> isPlaying (sp w)"
    using playing_step by blast
  have 3: "\<not> isPlaying (sp (pause w))" by (simp add: pause_fields)
  have 4: "isPlaying (sp (snd (play w))) = (isPlaying (sp w) \<or> submits w)"
    by (auto simp: sp_play submits_def)
  have 5: "submits w \<longleftrightarrow> fst (play w) = None \<or> fst (play w) = Some StreamError"
    by (auto simp: submits_def fst_play split: option.splits)
  have 6: "\<not> submits w \<longleftrightarrow> fst (play w) = Some NoSoundLoaded \<or> fst (play w) = Some InitError"
    by (auto simp: submits_def fst_play split: option.splits)
  have 7: "\<not> submits w \<longrightarrow> sp (snd (play w)) = sp w"
    by (auto simp: submits_def sp_play)
  from 1 2 3 4 5 6 7 show ?thesis by blast
qed

text \<open>
  The theorem at the state that plays \<^verbatim>\<open>a.mp3\<close> (its trace ends with a stream submitted),
  at the state that has only loaded it (a load does not start playback, \<^verbatim>\<open>play\<close> does), and
  at the state whose device no longer opens (\<^verbatim>\<open>play\<close> fails and leaves the struct alone).
\<close>

theorem playing_only_after_submit_witness:
  "isPlaying (sp playing_a) \<and> trace_playing False (calls playing_a) \<and>
   \<not> isPlaying (sp loaded_a) \<and> \<not> isPlaying (sp (step (Load ''b.mp3'') loaded_a)) \<and>
   submits loaded_a \<and> isPlaying (sp (snd (play loaded_a))) \<and>
   \<not> submits unplugged_a \<and> fst (play unplugged_a) = Some InitError \<and>
   sp (snd (play unplugged_a)) = sp unplugged_a"
proof -
  note t = playing_only_after_submit [OF playing_a_run]
  have a: "isPlaying (sp playing_a)" "\<not> isPlaying (sp loaded_a)" "submits loaded_a"
    "\<not> submits unplugged_a" "fst (play unplugged_a) \<noteq> Some NoSoundLoaded"
    by (simp_all add: playing_a_value loaded_a_value unplugged_a_value submits_def
        demo_device_def no_device_def fst_play_nil)
  from t [of loaded_a] a(1) have 1: "trace_playing False (calls playing_a)" by blast
  from t [of loaded_a] a(2) have 2: "\<not> isPlaying (sp (step (Load ''b.mp3'') loaded_a))"
    by blast
  from t [of loaded_a] a(3) have 3: "isPlaying (sp (snd (play loaded_a)))" by blast
  from t [of unplugged_a] a(4,5) have 4: "fst (play unplugged_a) = Some InitError"
    and 5: "sp (snd (play unplugged_a)) = sp unplugged_a" by blast+
  from a 1 2 3 4 5 show ?thesis by blast
qed

end
